theory Spec2Isabelle
  imports Complex_Main "HOL-Library.Word"
begin

section \<open>Ultrasonic positioning: \<^verbatim>\<open>position.c\<close>\<close>

text \<open>
  The file \<^verbatim>\<open>PSoC_Creator/Carlab.cydsn/position.c\<close> holds four file-scope variables
  (\<^verbatim>\<open>x\<close>, \<^verbatim>\<open>y\<close>, \<^verbatim>\<open>fxy\<close>, \<^verbatim>\<open>new_data\<close>), their accessors, and the interrupt handler
  \<^verbatim>\<open>positioningHandler\<close> that reads four capture values, converts them into three
  distance differences and runs a damped Newton iteration.

  The embedding below follows the C text statement by statement. Integers are machine
  words; the floating-point arithmetic is kept abstract (see the next subsection), so
  every theorem holds for whatever the target's \<^verbatim>\<open>float\<close> and \<^verbatim>\<open>double\<close> compute.
\<close>

subsection \<open>Machine types\<close>

text \<open>
  \<^verbatim>\<open>uint32\<close> is \<^verbatim>\<open>unsigned long\<close> and \<^verbatim>\<open>int32\<close> is \<^verbatim>\<open>signed long\<close> on the PSoC
  (both 32 bits wide), \<^verbatim>\<open>uint8\<close> is \<^verbatim>\<open>unsigned char\<close>.
\<close>

type_synonym uint32 = "32 word"
type_synonym uint8 = "8 word"

subsection \<open>Floating point, kept abstract\<close>

text \<open>
  \<^verbatim>\<open>float\<close> is the type variable \<open>'f\<close> and \<^verbatim>\<open>double\<close> the type variable \<open>'d\<close>. Both
  only carry the syntactic classes of \<open>+\<close>, \<open>-\<close>, unary minus, \<open>*\<close>, \<open>/\<close> (the
  class \<open>inverse\<close>), \<open><\<close> and \<open>\<le>\<close>: no law of arithmetic or order is assumed of them, so rounding, infinities
  and NaN are all allowed interpretations. What the type classes cannot express is a
  field of the record \<open>fpu\<close>: the conversions of C, decimal literals, \<^verbatim>\<open>sqrt\<close> and the
  comparison \<^verbatim>\<open>==\<close> (which is not HOL's equality on a type with NaN or a signed zero).
\<close>

record ('f, 'd) fpu =
  f_of_int :: "int \<Rightarrow> 'f"
  d_of_int :: "int \<Rightarrow> 'd"
  d_of_f :: "'f \<Rightarrow> 'd"
  f_of_d :: "'d \<Rightarrow> 'f"
  d_lit :: "rat \<Rightarrow> 'd"
  d_sqrt :: "'d \<Rightarrow> 'd"
  d_eq :: "'d \<Rightarrow> 'd \<Rightarrow> bool"

subsection \<open>Constants\<close>

definition X :: "('f::{plus,minus,uminus,times,inverse,ord}, 'd::{plus,minus,uminus,times,inverse,ord}) fpu \<Rightarrow> 'd" where
  "X fp = d_lit fp 23.5"

definition Y :: "('f::{plus,minus,uminus,times,inverse,ord}, 'd::{plus,minus,uminus,times,inverse,ord}) fpu \<Rightarrow> 'd" where
  "Y fp = d_lit fp 33.75"

definition Z :: "('f::{plus,minus,uminus,times,inverse,ord}, 'd::{plus,minus,uminus,times,inverse,ord}) fpu \<Rightarrow> 'd" where
  "Z fp = d_lit fp 7.583"

definition CLOCK_FREQ :: int where
  "CLOCK_FREQ = 1000000"

definition WAVE_SPEED :: "('f::{plus,minus,uminus,times,inverse,ord}, 'd::{plus,minus,uminus,times,inverse,ord}) fpu \<Rightarrow> 'd" where
  "WAVE_SPEED fp = d_lit fp 1135.0"

definition TX_SPACING :: int where
  "TX_SPACING = 100"

definition DEL_FACTOR :: "('f::{plus,minus,uminus,times,inverse,ord}, 'd::{plus,minus,uminus,times,inverse,ord}) fpu \<Rightarrow> 'd" where
  "DEL_FACTOR fp = d_lit fp 0.1"

definition MAX_ERROR :: "('f::{plus,minus,uminus,times,inverse,ord}, 'd::{plus,minus,uminus,times,inverse,ord}) fpu \<Rightarrow> 'd" where
  "MAX_ERROR fp = d_lit fp 0.5"

definition ERROR_THRESHOLD :: "('f::{plus,minus,uminus,times,inverse,ord}, 'd::{plus,minus,uminus,times,inverse,ord}) fpu \<Rightarrow> 'd" where
  "ERROR_THRESHOLD fp = d_lit fp 0.01"

definition MAX_ITERATIONS :: int where
  "MAX_ITERATIONS = 100"

text \<open>\<^verbatim>\<open>ULONG_MAX\<close> of \<^verbatim>\<open>limits.h\<close>, for the 32-bit \<^verbatim>\<open>unsigned long\<close>.\<close>

definition ULONG_MAX :: uint32 where
  "ULONG_MAX = - 1"

subsection \<open>Global variables and accessors\<close>

record 'f position =
  x :: 'f
  y :: 'f
  fxy :: 'f
  new_data :: uint8

text \<open>
  \<^verbatim>\<open>position_data_available\<close> runs between \<^verbatim>\<open>CyEnterCriticalSection\<close> and
  \<^verbatim>\<open>CyExitCriticalSection\<close>, so it is one atomic step: it returns the flag and the state
  with the flag cleared.
\<close>

definition position_data_available :: "'f position \<Rightarrow> uint8 \<times> 'f position" where
  "position_data_available st = (let ret = new_data st in (ret, st\<lparr>new_data := 0\<rparr>))"

definition position_x :: "'f position \<Rightarrow> 'f" where
  "position_x st = x st"

definition position_y :: "'f position \<Rightarrow> 'f" where
  "position_y st = y st"

definition error :: "'f position \<Rightarrow> 'f" where
  "error st = fxy st"

definition fabsf :: "('f::{plus,minus,uminus,times,inverse,ord}, 'd::{plus,minus,uminus,times,inverse,ord}) fpu \<Rightarrow> 'f \<Rightarrow> 'f" where
  "fabsf fp num = (if d_of_f fp num \<ge> d_lit fp 0.0 then num else - num)"

subsection \<open>The interrupt handler: acquisition\<close>

text \<open>
  The argument \<open>capture\<close> stands for the timer's capture register: \<open>capture i\<close> is what
  the \<open>i\<close>-th call of \<^verbatim>\<open>UltraTimer_ReadCapture()\<close> in this invocation returns, so the
  local array \<^verbatim>\<open>time\<close> holds \<open>capture 0\<close>, ..., \<open>capture 3\<close>. The first loop leaves the
  handler at the first capture for which the condition of its \<^verbatim>\<open>if\<close> holds, here
  \<open>stale\<close>: the capture is zero or below \<^verbatim>\<open>ULONG_MAX - CLOCK_FREQ\<close>, computed in
  \<^verbatim>\<open>unsigned long\<close> (\<^verbatim>\<open>SHOW_GARBAGE\<close> is not defined, so nothing is written before
  the \<^verbatim>\<open>return\<close>). \<open>read_times capture i\<close> runs the loop from index \<open>i\<close> and says
  whether it ran through.
\<close>

definition stale :: "uint32 \<Rightarrow> bool" where
  "stale t \<longleftrightarrow> t = 0 \<or> t < ULONG_MAX - word_of_int CLOCK_FREQ"

function read_times :: "(int \<Rightarrow> uint32) \<Rightarrow> int \<Rightarrow> bool" where
  "read_times capture i =
     (if i < 4 then
        (if stale (capture i) then False
         else read_times capture (i + 1))
      else True)"
  by pat_completeness auto
termination
  by (relation "measure (\<lambda>(capture, i). nat (4 - i))") auto

declare read_times.simps [simp del]

subsection \<open>The interrupt handler: differences in distance\<close>

text \<open>
  The integer part of the assignment to \<^verbatim>\<open>diff[i]\<close>: the subtraction of two \<^verbatim>\<open>uint32\<close>
  wraps around, the cast to \<^verbatim>\<open>int32\<close> reads the same 32 bits as two's complement, and
  the subtraction of \<^verbatim>\<open>i*(CLOCK_FREQ/1000*TX_SPACING)\<close> is done in 32-bit signed
  arithmetic, modelled on the bits (with wrap-around) and read back by \<open>sint\<close>.
\<close>

definition tick_delta :: "uint32 \<Rightarrow> uint32 \<Rightarrow> int \<Rightarrow> uint32" where
  "tick_delta t0 ti i = (t0 - ti) - word_of_int i * word_of_int (CLOCK_FREQ div 1000 * TX_SPACING)"

text \<open>
  \<^verbatim>\<open>diff[i] = (float)(...) * (WAVE_SPEED/CLOCK_FREQ)\<close>: the \<^verbatim>\<open>float\<close> is promoted to
  \<^verbatim>\<open>double\<close>, multiplied by the \<^verbatim>\<open>double\<close> quotient, and the product is stored as a
  \<^verbatim>\<open>float\<close>.
\<close>

definition diff :: "('f::{plus,minus,uminus,times,inverse,ord}, 'd::{plus,minus,uminus,times,inverse,ord}) fpu \<Rightarrow> (int \<Rightarrow> uint32) \<Rightarrow> int \<Rightarrow> 'f" where
  "diff fp time i =
     f_of_d fp (d_of_f fp (f_of_int fp (sint (tick_delta (time 0) (time i) i)))
                * (WAVE_SPEED fp / d_of_int fp CLOCK_FREQ))"

text \<open>
  The second loop, from index \<open>i\<close>: it leaves the handler at the first difference whose
  magnitude is above \<^verbatim>\<open>X + Y\<close>.
\<close>

function check_diffs :: "('f::{plus,minus,uminus,times,inverse,ord}, 'd::{plus,minus,uminus,times,inverse,ord}) fpu \<Rightarrow> (int \<Rightarrow> uint32) \<Rightarrow> int \<Rightarrow> bool" where
  "check_diffs fp time i =
     (if i < 4 then
        (if d_of_f fp (fabsf fp (diff fp time i)) > X fp + Y fp then False
         else check_diffs fp time (i + 1))
      else True)"
  by pat_completeness auto
termination
  by (relation "measure (\<lambda>(fp, time, i). nat (4 - i))") auto

declare check_diffs.simps [simp del]

subsection \<open>The interrupt handler: one pass through the loop body\<close>

text \<open>
  The four hypothetical distances \<^verbatim>\<open>dist[k]\<close> at the point \<open>(new_x, new_y)\<close>: the
  argument of \<^verbatim>\<open>sqrt\<close> is computed in \<^verbatim>\<open>double\<close>, the result is stored as a \<^verbatim>\<open>float\<close>.
  \<open>half fp c\<close> is the C expression \<^verbatim>\<open>c/2\<close> for a \<^verbatim>\<open>double\<close> \<open>c\<close>, as in \<^verbatim>\<open>X/2\<close>.
\<close>

definition half :: "('f::{plus,minus,uminus,times,inverse,ord}, 'd::{plus,minus,uminus,times,inverse,ord}) fpu \<Rightarrow> 'd \<Rightarrow> 'd" where
  "half fp c = c / d_of_int fp 2"

definition dist :: "('f::{plus,minus,uminus,times,inverse,ord}, 'd::{plus,minus,uminus,times,inverse,ord}) fpu \<Rightarrow> 'f \<Rightarrow> 'f \<Rightarrow> int \<Rightarrow> 'f" where
  "dist fp new_x new_y k =
     (let nx = d_of_f fp new_x; ny = d_of_f fp new_y in
      if k = 0 then
        f_of_d fp (d_sqrt fp ((nx + half fp (X fp)) * (nx + half fp (X fp))
                             + (ny + half fp (Y fp)) * (ny + half fp (Y fp)) + Z fp * Z fp))
      else if k = 1 then
        f_of_d fp (d_sqrt fp ((nx - half fp (X fp)) * (nx - half fp (X fp))
                             + (ny + half fp (Y fp)) * (ny + half fp (Y fp)) + Z fp * Z fp))
      else if k = 2 then
        f_of_d fp (d_sqrt fp ((nx - half fp (X fp)) * (nx - half fp (X fp))
                             + (ny - half fp (Y fp)) * (ny - half fp (Y fp)) + Z fp * Z fp))
      else
        f_of_d fp (d_sqrt fp ((nx + half fp (X fp)) * (nx + half fp (X fp))
                             + (ny - half fp (Y fp)) * (ny - half fp (Y fp)) + Z fp * Z fp)))"

text \<open>\<^verbatim>\<open>error[i] = (dist[i]-dist[0]) - diff[i]\<close>, in \<^verbatim>\<open>float\<close>.\<close>

definition err :: "('f::{plus,minus,uminus,times,inverse,ord}, 'd::{plus,minus,uminus,times,inverse,ord}) fpu \<Rightarrow> (int \<Rightarrow> 'f) \<Rightarrow> 'f \<Rightarrow> 'f \<Rightarrow> int \<Rightarrow> 'f" where
  "err fp dif new_x new_y i = (dist fp new_x new_y i - dist fp new_x new_y 0) - dif i"

text \<open>
  The metric: \<^verbatim>\<open>new_fxy = 0.0\<close>, then \<^verbatim>\<open>new_fxy += error[i]*error[i]\<close> for
  \<open>i = 1, 2, 3\<close>.
\<close>

definition cost :: "('f::{plus,minus,uminus,times,inverse,ord}, 'd::{plus,minus,uminus,times,inverse,ord}) fpu \<Rightarrow> (int \<Rightarrow> 'f) \<Rightarrow> 'f \<Rightarrow> 'f \<Rightarrow> 'f" where
  "cost fp dif new_x new_y =
     ((f_of_d fp (d_lit fp 0.0)
        + err fp dif new_x new_y 1 * err fp dif new_x new_y 1)
        + err fp dif new_x new_y 2 * err fp dif new_x new_y 2)
        + err fp dif new_x new_y 3 * err fp dif new_x new_y 3"

text \<open>
  The partial derivatives, each an assignment and two \<^verbatim>\<open>+=\<close>. \<^verbatim>\<open>2*error[i]\<close> is a
  \<^verbatim>\<open>float\<close> product; its other factor is a \<^verbatim>\<open>double\<close>, so the product and the sum are
  computed in \<^verbatim>\<open>double\<close> and stored back as \<^verbatim>\<open>float\<close>.
\<close>

definition dfx :: "('f::{plus,minus,uminus,times,inverse,ord}, 'd::{plus,minus,uminus,times,inverse,ord}) fpu \<Rightarrow> (int \<Rightarrow> 'f) \<Rightarrow> 'f \<Rightarrow> 'f \<Rightarrow> 'f" where
  "dfx fp dif new_x new_y =
     (let nx = d_of_f fp new_x;
          d = (\<lambda>k. d_of_f fp (dist fp new_x new_y k));
          two_error = (\<lambda>i. d_of_f fp (f_of_int fp 2 * err fp dif new_x new_y i));
          a = f_of_d fp (two_error 2 * (((nx - half fp (X fp)) / d 2) - (nx + half fp (X fp)) / d 0));
          b = f_of_d fp (d_of_f fp a
                + two_error 3 * (((nx + half fp (X fp)) / d 3) - (nx + half fp (X fp)) / d 0))
      in f_of_d fp (d_of_f fp b
                + two_error 1 * (((nx - half fp (X fp)) / d 1) - (nx + half fp (X fp)) / d 0)))"

definition dfy :: "('f::{plus,minus,uminus,times,inverse,ord}, 'd::{plus,minus,uminus,times,inverse,ord}) fpu \<Rightarrow> (int \<Rightarrow> 'f) \<Rightarrow> 'f \<Rightarrow> 'f \<Rightarrow> 'f" where
  "dfy fp dif new_x new_y =
     (let ny = d_of_f fp new_y;
          d = (\<lambda>k. d_of_f fp (dist fp new_x new_y k));
          two_error = (\<lambda>i. d_of_f fp (f_of_int fp 2 * err fp dif new_x new_y i));
          a = f_of_d fp (two_error 2 * (((ny - half fp (Y fp)) / d 2) - (ny + half fp (Y fp)) / d 0));
          b = f_of_d fp (d_of_f fp a
                + two_error 3 * (((ny - half fp (Y fp)) / d 3) - (ny + half fp (Y fp)) / d 0))
      in f_of_d fp (d_of_f fp b
                + two_error 1 * (((ny + half fp (Y fp)) / d 1) - (ny + half fp (Y fp)) / d 0)))"

definition gradient_magnitude_squared :: "('f::{plus,minus,uminus,times,inverse,ord}, 'd::{plus,minus,uminus,times,inverse,ord}) fpu \<Rightarrow> (int \<Rightarrow> 'f) \<Rightarrow> 'f \<Rightarrow> 'f \<Rightarrow> 'f" where
  "gradient_magnitude_squared fp dif new_x new_y =
     dfx fp dif new_x new_y * dfx fp dif new_x new_y
       + dfy fp dif new_x new_y * dfy fp dif new_x new_y"

text \<open>
  \<^verbatim>\<open>v -= DEL_FACTOR * new_fxy * df / gradient_magnitude_squared\<close>: the right-hand side
  is a \<^verbatim>\<open>double\<close> (the factor \<^verbatim>\<open>DEL_FACTOR\<close> is one), the difference is stored as a
  \<^verbatim>\<open>float\<close>.
\<close>

definition newton_update :: "('f::{plus,minus,uminus,times,inverse,ord}, 'd::{plus,minus,uminus,times,inverse,ord}) fpu \<Rightarrow> 'f \<Rightarrow> 'f \<Rightarrow> 'f \<Rightarrow> 'f \<Rightarrow> 'f" where
  "newton_update fp v new_fxy df gms =
     f_of_d fp (d_of_f fp v
                - DEL_FACTOR fp * d_of_f fp new_fxy * d_of_f fp df / d_of_f fp gms)"

subsection \<open>The interrupt handler: the \<^verbatim>\<open>do ... while\<close> loop\<close>

text \<open>
  \<open>solver fp dif new_x new_y iters\<close> runs the loop from the top of its body with the
  local variables at these values, and returns \<open>(new_x, new_y, new_fxy, iters)\<close> as they
  are when the loop is left (the variable \<^verbatim>\<open>new_fxy\<close> is assigned in every pass before
  it is read, so it is no argument). The body ends at \<^verbatim>\<open>break\<close> when the squared gradient
  compares equal to \<^verbatim>\<open>0.0\<close>; otherwise both coordinates are updated, \<^verbatim>\<open>iters\<close> is
  incremented and the loop condition is tested. The output to the LCD
  (\<^verbatim>\<open>PRINT_CONVERGENCE\<close>) formats the variables into a buffer of its own and writes no
  variable of the computation (as long as the text fits the buffer); it is left out.
\<close>

function solver :: "('f::{plus,minus,uminus,times,inverse,ord}, 'd::{plus,minus,uminus,times,inverse,ord}) fpu \<Rightarrow> (int \<Rightarrow> 'f) \<Rightarrow> 'f \<Rightarrow> 'f \<Rightarrow> int \<Rightarrow> 'f \<times> 'f \<times> 'f \<times> int" where
  "solver fp dif new_x new_y iters =
     (let new_fxy = cost fp dif new_x new_y;
          gms = gradient_magnitude_squared fp dif new_x new_y
      in if d_eq fp (d_of_f fp gms) (d_lit fp 0.0) then (new_x, new_y, new_fxy, iters)
         else
           (let new_x' = newton_update fp new_x new_fxy (dfx fp dif new_x new_y) gms;
                new_y' = newton_update fp new_y new_fxy (dfy fp dif new_x new_y) gms;
                iters' = iters + 1
            in if d_of_f fp (fabsf fp new_fxy) > ERROR_THRESHOLD fp \<and> iters' < MAX_ITERATIONS
               then solver fp dif new_x' new_y' iters'
               else (new_x', new_y', new_fxy, iters')))"
  by pat_completeness auto
termination
  by (relation "measure (\<lambda>(fp, dif, new_x, new_y, iters). nat (MAX_ITERATIONS - iters))") auto

declare solver.simps [simp del]

subsection \<open>The interrupt handler: acceptance\<close>

text \<open>
  The last \<^verbatim>\<open>if\<close> of the handler: the four assignments are made when
  \<^verbatim>\<open>fabsf(new_fxy) < MAX_ERROR\<close>, and nothing is written otherwise.
\<close>

definition publish :: "('f::{plus,minus,uminus,times,inverse,ord}, 'd::{plus,minus,uminus,times,inverse,ord}) fpu \<Rightarrow> 'f position \<Rightarrow> 'f \<times> 'f \<times> 'f \<times> int \<Rightarrow> 'f position" where
  "publish fp st r =
     (case r of (new_x, new_y, new_fxy, iters) \<Rightarrow>
        if d_of_f fp (fabsf fp new_fxy) < MAX_ERROR fp
        then st\<lparr>x := new_x, y := new_y, fxy := new_fxy, new_data := 1\<rparr>
        else st)"

text \<open>
  The whole handler, as a function from the state of the four globals before the
  interrupt to their state after it. The two early \<^verbatim>\<open>return\<close>s leave them as they are.
  The iteration starts at \<^verbatim>\<open>new_x = x\<close>, \<^verbatim>\<open>new_y = y\<close>, \<^verbatim>\<open>iters = 0\<close>. The final
  \<^verbatim>\<open>UltraTimer_ReadStatusRegister()\<close> acts on the timer only.
\<close>

definition positioningHandler :: "('f::{plus,minus,uminus,times,inverse,ord}, 'd::{plus,minus,uminus,times,inverse,ord}) fpu \<Rightarrow> (int \<Rightarrow> uint32) \<Rightarrow> 'f position \<Rightarrow> 'f position" where
  "positioningHandler fp time st =
     (if \<not> read_times time 0 then st
      else if \<not> check_diffs fp time 1 then st
      else publish fp st (solver fp (diff fp time) (x st) (y st) 0))"

section \<open>Notions used to state the properties\<close>

subsection \<open>The iteration the loop is meant to perform\<close>

text \<open>
  These definitions follow the description of the solver rather than the C text: a point
  is stationary when its squared gradient magnitude compares equal to zero, it is above
  the threshold when the magnitude of its cost is, and a step subtracts from each
  coordinate the damping factor times the cost times the partial derivative, divided by
  the squared gradient magnitude. \<open>iterate fp dif p k\<close> is the point after \<open>k\<close> steps from
  \<open>p\<close>, whatever the loop would have done.
\<close>

definition stationary :: "('f::{plus,minus,uminus,times,inverse,ord}, 'd::{plus,minus,uminus,times,inverse,ord}) fpu \<Rightarrow> (int \<Rightarrow> 'f) \<Rightarrow> 'f \<times> 'f \<Rightarrow> bool" where
  "stationary fp dif p =
     d_eq fp (d_of_f fp (gradient_magnitude_squared fp dif (fst p) (snd p))) (d_lit fp 0.0)"

definition above_threshold :: "('f::{plus,minus,uminus,times,inverse,ord}, 'd::{plus,minus,uminus,times,inverse,ord}) fpu \<Rightarrow> (int \<Rightarrow> 'f) \<Rightarrow> 'f \<times> 'f \<Rightarrow> bool" where
  "above_threshold fp dif p =
     (d_of_f fp (fabsf fp (cost fp dif (fst p) (snd p))) > ERROR_THRESHOLD fp)"

definition step :: "('f::{plus,minus,uminus,times,inverse,ord}, 'd::{plus,minus,uminus,times,inverse,ord}) fpu \<Rightarrow> (int \<Rightarrow> 'f) \<Rightarrow> 'f \<times> 'f \<Rightarrow> 'f \<times> 'f" where
  "step fp dif p =
     (case p of (a, b) \<Rightarrow>
        (f_of_d fp (d_of_f fp a
           - DEL_FACTOR fp * d_of_f fp (cost fp dif a b) * d_of_f fp (dfx fp dif a b)
               / d_of_f fp (gradient_magnitude_squared fp dif a b)),
         f_of_d fp (d_of_f fp b
           - DEL_FACTOR fp * d_of_f fp (cost fp dif a b) * d_of_f fp (dfy fp dif a b)
               / d_of_f fp (gradient_magnitude_squared fp dif a b))))"

primrec iterate :: "('f::{plus,minus,uminus,times,inverse,ord}, 'd::{plus,minus,uminus,times,inverse,ord}) fpu \<Rightarrow> (int \<Rightarrow> 'f) \<Rightarrow> 'f \<times> 'f \<Rightarrow> nat \<Rightarrow> 'f \<times> 'f" where
  "iterate fp dif p 0 = p"
| "iterate fp dif p (Suc k) = step fp dif (iterate fp dif p k)"

text \<open>
  What the loop returns when it is entered at the point \<open>p\<close> with \<^verbatim>\<open>iters = i\<close> and left
  in its pass number \<open>K\<close> (counted from 0): in that pass the cost is computed at the
  \<open>K\<close>-th iterate; either the pass ends at \<^verbatim>\<open>break\<close>, or it makes one more step.
\<close>

definition outcome :: "('f::{plus,minus,uminus,times,inverse,ord}, 'd::{plus,minus,uminus,times,inverse,ord}) fpu \<Rightarrow> (int \<Rightarrow> 'f) \<Rightarrow> 'f \<times> 'f \<Rightarrow> int \<Rightarrow> nat \<Rightarrow> 'f \<times> 'f \<times> 'f \<times> int" where
  "outcome fp dif p i K =
     (let q = iterate fp dif p K; F = cost fp dif (fst q) (snd q) in
      if stationary fp dif q then (fst q, snd q, F, i + int K)
      else (fst (step fp dif q), snd (step fp dif q), F, i + int K + 1))"

subsection \<open>Timestamps near the wrap-around of the counter\<close>

text \<open>
  The counter wraps between \<^verbatim>\<open>ULONG_MAX\<close> and 0. A timestamp is near the wrap-around
  when it is within one second's worth of ticks (\<^verbatim>\<open>CLOCK_FREQ\<close>) of it, on either side.
\<close>

definition near_wraparound :: "uint32 \<Rightarrow> bool" where
  "near_wraparound t \<longleftrightarrow> t \<le> word_of_int CLOCK_FREQ \<or> ULONG_MAX - word_of_int CLOCK_FREQ \<le> t"

subsection \<open>Exact arithmetic, for concrete runs\<close>

text \<open>
  One interpretation of the floating-point interface: both types are the real numbers,
  every operation is exact and every conversion is the identity. The concrete runs below
  are evaluated in it.
\<close>

definition exact_arith :: "(real, real) fpu" where
  "exact_arith = \<lparr>f_of_int = of_int, d_of_int = of_int, d_of_f = (\<lambda>v. v), f_of_d = (\<lambda>v. v),
                  d_lit = of_rat, d_sqrt = sqrt, d_eq = (=)\<rparr>"

text \<open>
  Capture sequences. The counter runs down from \<^verbatim>\<open>ULONG_MAX\<close>, and the transmitters are
  100000 ticks apart. \<open>on_time\<close>: every pulse arrives exactly on its slot (the receiver is
  at equal distance from all four). \<open>one_tick_late\<close>: the second pulse arrives one tick
  late. \<open>inconsistent\<close>: the second and fourth pulse arrive 400 ticks late, the third 400
  ticks early. \<open>far_off\<close>: the second pulse arrives 900000 ticks late.
  \<open>hundred_ticks_late\<close>: the second pulse arrives 100 ticks late.
  Two published states: \<open>at_origin\<close>, the initial values of the globals, and
  \<open>off_centre\<close>, an estimate one foot to the right of the centre.
\<close>

definition on_time :: "int \<Rightarrow> uint32" where
  "on_time i = 4294967295 - 100000 * word_of_int i"

definition one_tick_late :: "int \<Rightarrow> uint32" where
  "one_tick_late i = (if i = 1 then 4294867294 else 4294967295 - 100000 * word_of_int i)"

definition inconsistent :: "int \<Rightarrow> uint32" where
  "inconsistent i =
     (if i = 1 then 4294866895 else if i = 2 then 4294767695 else if i = 3 then 4294666895
      else 4294967295)"

definition far_off :: "int \<Rightarrow> uint32" where
  "far_off i = (if i = 1 then 4293967295 else 4294967295 - 100000 * word_of_int i)"


definition at_origin :: "real position" where
  "at_origin = \<lparr>x = 0, y = 0, fxy = 0, new_data = 0\<rparr>"

definition off_centre :: "real position" where
  "off_centre = \<lparr>x = 1, y = 0, fxy = 0, new_data = 0\<rparr>"

section \<open>Auxiliary facts\<close>

subsection \<open>The two validity loops\<close>

lemma fresh_uint:
  "ULONG_MAX - word_of_int CLOCK_FREQ \<le> (t :: uint32) \<longleftrightarrow> 4293967295 \<le> uint t"
proof -
  have "ULONG_MAX - word_of_int CLOCK_FREQ = (4293967295 :: uint32)"
    by (simp add: ULONG_MAX_def CLOCK_FREQ_def)
  then show ?thesis
    by (simp add: word_le_def)
qed

lemma stale_iff:
  "stale t \<longleftrightarrow> \<not> ULONG_MAX - word_of_int CLOCK_FREQ \<le> t"
proof -
  have "ULONG_MAX - word_of_int CLOCK_FREQ = (4293967295 :: uint32)"
    by (simp add: ULONG_MAX_def CLOCK_FREQ_def)
  then show ?thesis
    by (auto simp: stale_def not_le)
qed

lemma read_times_from:
  "read_times time i \<longleftrightarrow> (\<forall>j. i \<le> j \<and> j < 4 \<longrightarrow> \<not> stale (time j))"
proof (induction time i rule: read_times.induct)
  case (1 capture i)
  show ?case
  proof (cases "i < 4")
    case False
    then show ?thesis by (subst read_times.simps) auto
  next
    case True
    note lt = this
    show ?thesis
    proof (cases "stale (capture i)")
      case True
      with lt show ?thesis
        by (subst read_times.simps) auto
    next
      case False
      have "read_times capture i = read_times capture (i + 1)"
        using lt False by (subst read_times.simps) simp
      also have "\<dots> \<longleftrightarrow> (\<forall>j. i + 1 \<le> j \<and> j < 4 \<longrightarrow> \<not> stale (capture j))"
        using "1.IH" lt False by blast
      also have "\<dots> \<longleftrightarrow> (\<forall>j. i \<le> j \<and> j < 4 \<longrightarrow> \<not> stale (capture j))"
      proof -
        have "i \<le> j \<longleftrightarrow> j = i \<or> i + 1 \<le> j" for j by auto
        with False show ?thesis by auto
      qed
      finally show ?thesis .
    qed
  qed
qed

lemma check_diffs_from:
  "check_diffs fp time i \<longleftrightarrow>
     (\<forall>j. i \<le> j \<and> j < 4 \<longrightarrow> \<not> d_of_f fp (fabsf fp (diff fp time j)) > X fp + Y fp)"
proof (induction fp time i rule: check_diffs.induct)
  case (1 fp time i)
  show ?case
  proof (cases "i < 4")
    case False
    then show ?thesis by (subst check_diffs.simps) auto
  next
    case True
    note lt = this
    show ?thesis
    proof (cases "d_of_f fp (fabsf fp (diff fp time i)) > X fp + Y fp")
      case True
      with lt show ?thesis
        by (subst check_diffs.simps) auto
    next
      case False
      have "check_diffs fp time i = check_diffs fp time (i + 1)"
        using lt False by (subst check_diffs.simps) simp
      also have "\<dots> \<longleftrightarrow>
          (\<forall>j. i + 1 \<le> j \<and> j < 4 \<longrightarrow> \<not> d_of_f fp (fabsf fp (diff fp time j)) > X fp + Y fp)"
        using "1.IH" lt False by blast
      also have "\<dots> \<longleftrightarrow>
          (\<forall>j. i \<le> j \<and> j < 4 \<longrightarrow> \<not> d_of_f fp (fabsf fp (diff fp time j)) > X fp + Y fp)"
      proof -
        have "i \<le> j \<longleftrightarrow> j = i \<or> i + 1 \<le> j" for j by auto
        with False show ?thesis by auto
      qed
      finally show ?thesis .
    qed
  qed
qed

subsection \<open>The tick delta of two fresh timestamps\<close>

lemma tick_delta_exact:
  assumes t0: "\<not> stale t0" and ti: "\<not> stale ti" and i: "0 \<le> i" "i \<le> 3"
  shows "sint (t0 - ti) = uint t0 - uint ti"
    and "sint (tick_delta t0 ti i) = uint t0 - uint ti - i * 100000"
proof -
  have b0: "4293967295 \<le> uint t0" "uint t0 < 4294967296"
    using t0 uint_bounded [of t0] by (simp_all add: stale_iff fresh_uint)
  have bi: "4293967295 \<le> uint ti" "uint ti < 4294967296"
    using ti uint_bounded [of ti] by (simp_all add: stale_iff fresh_uint)
  have e: "t0 - ti = word_of_int (uint t0 - uint ti)"
    by simp
  have "sint (t0 - ti) = sint (word_of_int (uint t0 - uint ti) :: uint32)"
    by (simp only: e [symmetric])
  also have "\<dots> = signed_take_bit 31 (uint t0 - uint ti)"
    by (subst sint_sbintrunc') simp
  also have "\<dots> = uint t0 - uint ti"
    using b0 bi by (intro signed_take_bit_int_eq_self) simp_all
  finally show "sint (t0 - ti) = uint t0 - uint ti" .
  have e': "tick_delta t0 ti i = word_of_int (uint t0 - uint ti - i * 100000)"
    by (simp add: tick_delta_def CLOCK_FREQ_def TX_SPACING_def)
  have "sint (tick_delta t0 ti i) = signed_take_bit 31 (uint t0 - uint ti - i * 100000)"
    by (subst e', subst sint_sbintrunc') simp
  also have "\<dots> = uint t0 - uint ti - i * 100000"
    using b0 bi i by (intro signed_take_bit_int_eq_self) simp_all
  finally show "sint (tick_delta t0 ti i) = uint t0 - uint ti - i * 100000" .
qed

subsection \<open>The loop in terms of the iteration\<close>

lemma iterate_shift: "iterate fp dif p (Suc k) = iterate fp dif (step fp dif p) k"
  by (induction k) simp_all

lemma solver_unfold:
  "solver fp dif a b i =
     (if stationary fp dif (a, b) then (a, b, cost fp dif a b, i)
      else if above_threshold fp dif (a, b) \<and> i + 1 < MAX_ITERATIONS
        then solver fp dif (fst (step fp dif (a, b))) (snd (step fp dif (a, b))) (i + 1)
        else (fst (step fp dif (a, b)), snd (step fp dif (a, b)), cost fp dif a b, i + 1))"
  by (subst solver.simps)
     (simp add: Let_def stationary_def above_threshold_def step_def newton_update_def)

lemma solver_run:
  "i = MAX_ITERATIONS - 1 - int n \<Longrightarrow>
   \<exists>K\<le>n. (\<forall>j<K. \<not> stationary fp dif (iterate fp dif p j)
                  \<and> above_threshold fp dif (iterate fp dif p j))
        \<and> (stationary fp dif (iterate fp dif p K)
             \<or> \<not> above_threshold fp dif (iterate fp dif p K) \<or> K = n)
        \<and> solver fp dif (fst p) (snd p) i = outcome fp dif p i K"
proof (induction n arbitrary: i p)
  case 0
  then have "\<not> i + 1 < MAX_ITERATIONS" by simp
  then have "solver fp dif (fst p) (snd p) i = outcome fp dif p i 0"
    by (subst solver_unfold) (simp add: outcome_def)
  then show ?case by simp
next
  case (Suc n)
  then have lt: "i + 1 < MAX_ITERATIONS" and nxt: "i + 1 = MAX_ITERATIONS - 1 - int n"
    by simp_all
  show ?case
  proof (cases "\<not> stationary fp dif p \<and> above_threshold fp dif p")
    case False
    then have "solver fp dif (fst p) (snd p) i = outcome fp dif p i 0"
      by (subst solver_unfold) (auto simp add: outcome_def)
    with False show ?thesis
      by (intro exI [of _ 0]) auto
  next
    case True
    from Suc.IH [OF nxt, of "step fp dif p"] obtain K where K: "K \<le> n"
      and before: "\<forall>j<K. \<not> stationary fp dif (iterate fp dif (step fp dif p) j)
                       \<and> above_threshold fp dif (iterate fp dif (step fp dif p) j)"
      and stop: "stationary fp dif (iterate fp dif (step fp dif p) K)
                   \<or> \<not> above_threshold fp dif (iterate fp dif (step fp dif p) K) \<or> K = n"
      and res: "solver fp dif (fst (step fp dif p)) (snd (step fp dif p)) (i + 1)
                  = outcome fp dif (step fp dif p) (i + 1) K"
      by blast
    have "solver fp dif (fst p) (snd p) i
            = solver fp dif (fst (step fp dif p)) (snd (step fp dif p)) (i + 1)"
      using True lt by (subst solver_unfold) simp
    also have "\<dots> = outcome fp dif p i (Suc K)"
      unfolding res outcome_def iterate_shift by (simp add: Let_def)
    finally have r: "solver fp dif (fst p) (snd p) i = outcome fp dif p i (Suc K)" .
    have b: "\<forall>j<Suc K. \<not> stationary fp dif (iterate fp dif p j)
                       \<and> above_threshold fp dif (iterate fp dif p j)"
    proof (intro allI impI)
      fix j assume "j < Suc K"
      show "\<not> stationary fp dif (iterate fp dif p j) \<and> above_threshold fp dif (iterate fp dif p j)"
      proof (cases j)
        case 0
        with True show ?thesis by simp
      next
        case (Suc j')
        with \<open>j < Suc K\<close> before show ?thesis
          by (simp only: iterate_shift) simp
      qed
    qed
    from K stop r b show ?thesis
      by (intro exI [of _ "Suc K"]) (simp only: iterate_shift, simp)
  qed
qed

lemma solver_exit:
  "\<exists>K<100.
      (\<forall>j<K. \<not> stationary fp dif (iterate fp dif (a, b) j)
               \<and> above_threshold fp dif (iterate fp dif (a, b) j))
    \<and> (stationary fp dif (iterate fp dif (a, b) K)
         \<or> \<not> above_threshold fp dif (iterate fp dif (a, b) K)
         \<or> int K + 1 = MAX_ITERATIONS)
    \<and> solver fp dif a b 0 = outcome fp dif (a, b) 0 K"
proof -
  have "(0 :: int) = MAX_ITERATIONS - 1 - int 99"
    by (simp add: MAX_ITERATIONS_def)
  from solver_run [OF this, of fp dif "(a, b)"] obtain K where K: "K \<le> 99"
    and before: "\<forall>j<K. \<not> stationary fp dif (iterate fp dif (a, b) j)
                     \<and> above_threshold fp dif (iterate fp dif (a, b) j)"
    and stop: "stationary fp dif (iterate fp dif (a, b) K)
                 \<or> \<not> above_threshold fp dif (iterate fp dif (a, b) K) \<or> K = 99"
    and res: "solver fp dif a b 0 = outcome fp dif (a, b) 0 K"
    by auto
  from K have "K < 100" by simp
  moreover from stop have "stationary fp dif (iterate fp dif (a, b) K)
         \<or> \<not> above_threshold fp dif (iterate fp dif (a, b) K)
         \<or> int K + 1 = MAX_ITERATIONS"
    by (auto simp: MAX_ITERATIONS_def)
  ultimately show ?thesis
    using before res by (intro exI [of _ K]) simp
qed

lemma solver_updates:
  "\<exists>n\<le>100. snd (snd (snd (solver fp dif a b 0))) = int n
      \<and> (fst (solver fp dif a b 0), fst (snd (solver fp dif a b 0))) = iterate fp dif (a, b) n
      \<and> (\<forall>j<n. \<not> stationary fp dif (iterate fp dif (a, b) j))
      \<and> (\<exists>K<100. fst (snd (snd (solver fp dif a b 0)))
             = cost fp dif (fst (iterate fp dif (a, b) K)) (snd (iterate fp dif (a, b) K)))"
proof -
  from solver_exit [of fp dif a b] obtain K where K: "K < 100"
    and before: "\<forall>j<K. \<not> stationary fp dif (iterate fp dif (a, b) j)
                     \<and> above_threshold fp dif (iterate fp dif (a, b) j)"
    and res: "solver fp dif a b 0 = outcome fp dif (a, b) 0 K"
    by blast
  have F: "\<exists>K<100. fst (snd (snd (solver fp dif a b 0)))
             = cost fp dif (fst (iterate fp dif (a, b) K)) (snd (iterate fp dif (a, b) K))"
    using K by (intro exI [of _ K]) (simp add: res outcome_def Let_def)
  show ?thesis
  proof (cases "stationary fp dif (iterate fp dif (a, b) K)")
    case True
    with K before F show ?thesis
      by (intro exI [of _ K]) (simp add: res outcome_def Let_def)
  next
    case False
    have "\<forall>j<Suc K. \<not> stationary fp dif (iterate fp dif (a, b) j)"
      using before False by (auto simp: less_Suc_eq)
    with K False F show ?thesis
      by (intro exI [of _ "Suc K"]) (simp add: res outcome_def Let_def)
  qed
qed

subsection \<open>Concrete runs in exact arithmetic\<close>

lemma exact_arith_simps [simp]:
  "f_of_int exact_arith = of_int" "d_of_int exact_arith = of_int"
  "d_of_f exact_arith v = v" "f_of_d exact_arith v = v"
  "d_lit exact_arith = of_rat" "d_sqrt exact_arith = sqrt" "d_eq exact_arith = (=)"
  by (simp_all add: exact_arith_def)

lemma dist_origin:
  "dist exact_arith 0 0 1 = dist exact_arith 0 0 0"
  "dist exact_arith 0 0 2 = dist exact_arith 0 0 0"
  "dist exact_arith 0 0 3 = dist exact_arith 0 0 0"
  "0 < dist exact_arith 0 0 0"
  by (simp_all add: dist_def half_def X_def Y_def Z_def of_rat_divide)

lemma read_times_examples:
  "read_times on_time 0" "read_times one_tick_late 0" "read_times inconsistent 0"
  "read_times far_off 0"
  by (simp_all add: read_times.simps stale_def ULONG_MAX_def CLOCK_FREQ_def
      on_time_def one_tick_late_def inconsistent_def far_off_def)

lemma diff_on_time:
  "diff exact_arith on_time 1 = 0" "diff exact_arith on_time 2 = 0"
  "diff exact_arith on_time 3 = 0"
  by (simp_all add: diff_def tick_delta_def on_time_def CLOCK_FREQ_def TX_SPACING_def)

lemma diff_one_tick_late:
  "diff exact_arith one_tick_late 1 = 1135 / 1000000" "diff exact_arith one_tick_late 2 = 0"
  "diff exact_arith one_tick_late 3 = 0"
  by (simp_all add: diff_def tick_delta_def one_tick_late_def CLOCK_FREQ_def TX_SPACING_def
      WAVE_SPEED_def)

lemma diff_inconsistent:
  "diff exact_arith inconsistent 1 = 454 / 1000" "diff exact_arith inconsistent 2 = - (454 / 1000)"
  "diff exact_arith inconsistent 3 = 454 / 1000"
  by (simp_all add: diff_def tick_delta_def inconsistent_def CLOCK_FREQ_def TX_SPACING_def
      WAVE_SPEED_def)

lemma diff_far_off:
  "diff exact_arith far_off 1 = 10215 / 10"
  by (simp_all add: diff_def tick_delta_def far_off_def CLOCK_FREQ_def TX_SPACING_def
      WAVE_SPEED_def)

lemma check_diffs_examples:
  "check_diffs exact_arith on_time 1" "check_diffs exact_arith one_tick_late 1"
  "check_diffs exact_arith inconsistent 1" "\<not> check_diffs exact_arith far_off 1"
  by (simp_all add: check_diffs.simps diff_on_time diff_one_tick_late diff_inconsistent
      diff_far_off fabsf_def X_def Y_def of_rat_divide)


lemma run_on_time:
  "stationary exact_arith (diff exact_arith on_time) (0, 0)"
  "cost exact_arith (diff exact_arith on_time) 0 0 = 0"
  by (simp_all add: stationary_def gradient_magnitude_squared_def dfx_def dfy_def cost_def
      err_def diff_on_time dist_origin Let_def)

lemma err_one_tick_late:
  "err exact_arith (diff exact_arith one_tick_late) 0 0 1 = - (1135 / 1000000)"
  "err exact_arith (diff exact_arith one_tick_late) 0 0 2 = 0"
  "err exact_arith (diff exact_arith one_tick_late) 0 0 3 = 0"
  by (simp_all add: err_def diff_one_tick_late dist_origin)

lemma run_one_tick_late:
  "cost exact_arith (diff exact_arith one_tick_late) 0 0 = 1288225 / 1000000000000"
  "dfx exact_arith (diff exact_arith one_tick_late) 0 0 = (10669 / 200000) / dist exact_arith 0 0 0"
  "dfy exact_arith (diff exact_arith one_tick_late) 0 0 = 0"
  by (simp_all add: cost_def dfx_def dfy_def err_one_tick_late dist_origin Let_def half_def
      X_def Y_def of_rat_divide)

lemma gms_one_tick_late:
  "gradient_magnitude_squared exact_arith (diff exact_arith one_tick_late) 0 0
     = ((10669 / 200000) / dist exact_arith 0 0 0) * ((10669 / 200000) / dist exact_arith 0 0 0)"
  by (simp add: gradient_magnitude_squared_def run_one_tick_late)

lemma step_one_tick_late:
  "\<not> stationary exact_arith (diff exact_arith one_tick_late) (0, 0)"
  "\<not> above_threshold exact_arith (diff exact_arith one_tick_late) (0, 0)"
  "step exact_arith (diff exact_arith one_tick_late) (0, 0)
     = (- (227 / 94000000) * dist exact_arith 0 0 0, 0)"
  using dist_origin(4)
  by (simp_all add: stationary_def above_threshold_def step_def gms_one_tick_late
      run_one_tick_late fabsf_def ERROR_THRESHOLD_def DEL_FACTOR_def of_rat_divide field_simps)

lemma err_inconsistent:
  "err exact_arith (diff exact_arith inconsistent) 0 0 1 = - (454 / 1000)"
  "err exact_arith (diff exact_arith inconsistent) 0 0 2 = 454 / 1000"
  "err exact_arith (diff exact_arith inconsistent) 0 0 3 = - (454 / 1000)"
  by (simp_all add: err_def diff_inconsistent dist_origin)

lemma run_inconsistent:
  "stationary exact_arith (diff exact_arith inconsistent) (0, 0)"
  "cost exact_arith (diff exact_arith inconsistent) 0 0 = 154587 / 250000"
  by (simp_all add: stationary_def gradient_magnitude_squared_def dfx_def dfy_def cost_def
      err_inconsistent dist_origin Let_def)

lemma solver_examples:
  "solver exact_arith (diff exact_arith on_time) 0 0 0 = (0, 0, 0, 0)"
  "solver exact_arith (diff exact_arith one_tick_late) 0 0 0
     = (- (227 / 94000000) * dist exact_arith 0 0 0, 0, 1288225 / 1000000000000, 1)"
  "solver exact_arith (diff exact_arith inconsistent) 0 0 0 = (0, 0, 154587 / 250000, 0)"
  by (simp_all add: solver_unfold run_on_time step_one_tick_late run_one_tick_late
      run_inconsistent)

lemma handler_examples:
  "positioningHandler exact_arith on_time at_origin = at_origin\<lparr>new_data := 1\<rparr>"
  "positioningHandler exact_arith one_tick_late at_origin
     = \<lparr>x = - (227 / 94000000) * dist exact_arith 0 0 0, y = 0,
        fxy = 1288225 / 1000000000000, new_data = 1\<rparr>"
  "positioningHandler exact_arith inconsistent at_origin = at_origin"
  "positioningHandler exact_arith far_off at_origin = at_origin"
  by (simp_all add: positioningHandler_def read_times_examples check_diffs_examples
      at_origin_def solver_examples publish_def fabsf_def MAX_ERROR_def of_rat_divide)


lemma dist_off_centre:
  "dist exact_arith 1 0 3 = dist exact_arith 1 0 0"
  "dist exact_arith 1 0 2 = dist exact_arith 1 0 1"
  "0 < dist exact_arith 1 0 0" "0 < dist exact_arith 1 0 1"
  "dist exact_arith 1 0 1 < dist exact_arith 1 0 0"
  by (simp_all add: dist_def half_def X_def Y_def Z_def of_rat_divide)

lemma dfy_off_centre:
  "dfy exact_arith (diff exact_arith on_time) 1 0
     = (135 / 2) * (dist exact_arith 1 0 0 - dist exact_arith 1 0 1) / dist exact_arith 1 0 0"
  using dist_off_centre(3,4)
  by (simp add: dfy_def err_def diff_on_time dist_off_centre(1,2) Let_def half_def Y_def
      of_rat_divide field_simps)

lemma not_stationary_off_centre:
  "\<not> stationary exact_arith (diff exact_arith on_time) (1, 0)"
proof -
  have "dfy exact_arith (diff exact_arith on_time) 1 0 \<noteq> 0"
    using dist_off_centre(3,4,5) by (simp add: dfy_off_centre)
  then show ?thesis
    by (simp add: stationary_def gradient_magnitude_squared_def sum_squares_eq_zero_iff)
qed

section \<open>The claims\<close>

subsection \<open>Acceptance of the solver's result\<close>

text \<open>
  Claim C1, as stated: after the loop, the published state is unchanged if the final cost
  exceeds \<^verbatim>\<open>MAX_ERROR\<close>, and it is updated (and the flag set) if the final cost is at or
  below \<^verbatim>\<open>MAX_ERROR\<close>. The second half fails at the ceiling itself: the test of the
  handler is the strict \<^verbatim>\<open>fabsf(new_fxy) < MAX_ERROR\<close>. With a final cost of exactly 0.5
  (a value both \<^verbatim>\<open>float\<close> and \<^verbatim>\<open>double\<close> represent, and which does not exceed the
  ceiling) the last \<^verbatim>\<open>if\<close> of the handler writes nothing.
\<close>

theorem acceptance_at_ceiling_counterexample:
  "d_of_f exact_arith (1 / 2) \<le> MAX_ERROR exact_arith
   \<and> \<not> d_of_f exact_arith (1 / 2) > MAX_ERROR exact_arith
   \<and> publish exact_arith at_origin (1, 2, 1 / 2, 5) = at_origin
   \<and> publish exact_arith at_origin (1, 2, 1 / 2, 5)
       \<noteq> at_origin\<lparr>x := 1, y := 2, fxy := 1 / 2, new_data := 1\<rparr>"
  by (simp add: publish_def fabsf_def MAX_ERROR_def at_origin_def of_rat_divide)

text \<open>
  Claim C1, amended: on a cycle that passes both validity loops, with \<open>(nx, ny, F, n)\<close>
  the values of the loop's variables at its exit, the handler publishes \<open>(nx, ny, F)\<close> and
  sets the flag when \<^verbatim>\<open>fabsf(F) < MAX_ERROR\<close>, that is when the cost is strictly below
  the ceiling in magnitude, and leaves all four globals as they were otherwise. After an
  update the flag is seen once: \<^verbatim>\<open>position_data_available\<close> returns 1 and clears it,
  and a second call returns 0.
\<close>

theorem acceptance_strictly_below_ceiling:
  assumes "read_times time 0" and "check_diffs fp time 1"
    and "solver fp (diff fp time) (x st) (y st) 0 = (nx, ny, F, n)"
  shows "(d_of_f fp (fabsf fp F) < MAX_ERROR fp \<longrightarrow>
            positioningHandler fp time st = st\<lparr>x := nx, y := ny, fxy := F, new_data := 1\<rparr>
            \<and> position_data_available (positioningHandler fp time st)
                = (1, st\<lparr>x := nx, y := ny, fxy := F, new_data := 0\<rparr>)
            \<and> fst (position_data_available
                  (snd (position_data_available (positioningHandler fp time st)))) = 0)
       \<and> (\<not> d_of_f fp (fabsf fp F) < MAX_ERROR fp \<longrightarrow> positioningHandler fp time st = st)"
  using assms by (simp add: positioningHandler_def publish_def position_data_available_def)

text \<open>
  Two runs from the origin: with the second pulse one tick late the cost is about
  \<open>1.3e-6\<close>, one step is made and the result is published; with the inconsistent
  captures the origin is stationary with a cost of about 0.62, which is refused.
\<close>

theorem acceptance_strictly_below_ceiling_witness:
  "read_times one_tick_late 0 \<and> check_diffs exact_arith one_tick_late 1
   \<and> d_of_f exact_arith (fabsf exact_arith (1288225 / 1000000000000)) < MAX_ERROR exact_arith
   \<and> positioningHandler exact_arith one_tick_late at_origin
       = \<lparr>x = - (227 / 94000000) * dist exact_arith 0 0 0, y = 0,
          fxy = 1288225 / 1000000000000, new_data = 1\<rparr>
   \<and> fst (position_data_available (positioningHandler exact_arith one_tick_late at_origin)) = 1
   \<and> fst (position_data_available (snd (position_data_available
            (positioningHandler exact_arith one_tick_late at_origin)))) = 0
   \<and> read_times inconsistent 0 \<and> check_diffs exact_arith inconsistent 1
   \<and> \<not> d_of_f exact_arith (fabsf exact_arith (154587 / 250000)) < MAX_ERROR exact_arith
   \<and> positioningHandler exact_arith inconsistent at_origin = at_origin"
proof -
  have a: "solver exact_arith (diff exact_arith one_tick_late) (x at_origin) (y at_origin) 0
     = (- (227 / 94000000) * dist exact_arith 0 0 0, 0, 1288225 / 1000000000000, 1)"
    by (simp add: at_origin_def solver_examples)
  have b: "solver exact_arith (diff exact_arith inconsistent) (x at_origin) (y at_origin) 0
     = (0, 0, 154587 / 250000, 0)"
    by (simp add: at_origin_def solver_examples)
  have c: "d_of_f exact_arith (fabsf exact_arith (1288225 / 1000000000000)) < MAX_ERROR exact_arith"
    by (simp add: fabsf_def MAX_ERROR_def of_rat_divide)
  have d: "\<not> d_of_f exact_arith (fabsf exact_arith (154587 / 250000)) < MAX_ERROR exact_arith"
    by (simp add: fabsf_def MAX_ERROR_def of_rat_divide)
  show ?thesis
    using acceptance_strictly_below_ceiling [OF read_times_examples(2) check_diffs_examples(2) a]
      acceptance_strictly_below_ceiling [OF read_times_examples(3) check_diffs_examples(3) b]
      c d read_times_examples check_diffs_examples
    by (simp add: at_origin_def position_data_available_def)
qed

subsection \<open>Rejected cycles\<close>

text \<open>
  Claim C2: a cycle is rejected when some timestamp is zero, some timestamp is below
  \<^verbatim>\<open>ULONG_MAX - CLOCK_FREQ\<close>, some difference has a magnitude above \<^verbatim>\<open>X + Y\<close>, or the
  final cost fails \<^verbatim>\<open>fabsf(new_fxy) < MAX_ERROR\<close>. In each of the four cases the handler
  returns the globals as it found them: \<^verbatim>\<open>x\<close>, \<^verbatim>\<open>y\<close> and \<^verbatim>\<open>fxy\<close> keep their values and
  \<^verbatim>\<open>new_data\<close> is not written.
\<close>

theorem rejected_cycle_leaves_state:
  assumes "(\<exists>i. 0 \<le> i \<and> i < 4 \<and> time i = 0)
         \<or> (\<exists>i. 0 \<le> i \<and> i < 4 \<and> time i < ULONG_MAX - word_of_int CLOCK_FREQ)
         \<or> (\<exists>i. 1 \<le> i \<and> i < 4 \<and> d_of_f fp (fabsf fp (diff fp time i)) > X fp + Y fp)
         \<or> \<not> d_of_f fp (fabsf fp (fst (snd (snd (solver fp (diff fp time) (x st) (y st) 0)))))
                < MAX_ERROR fp"
  shows "positioningHandler fp time st = st
         \<and> x (positioningHandler fp time st) = x st
         \<and> y (positioningHandler fp time st) = y st
         \<and> fxy (positioningHandler fp time st) = fxy st
         \<and> new_data (positioningHandler fp time st) = new_data st"
proof -
  have "positioningHandler fp time st = st"
  proof (cases "read_times time 0 \<and> check_diffs fp time 1")
    case False
    then show ?thesis by (auto simp: positioningHandler_def)
  next
    case True
    then have "\<not> stale (time i)" if "0 \<le> i" "i < 4" for i
      using that by (simp add: read_times_from)
    then have 1: "\<not> (\<exists>i. 0 \<le> i \<and> i < 4 \<and> time i = 0)"
      and 2: "\<not> (\<exists>i. 0 \<le> i \<and> i < 4 \<and> time i < ULONG_MAX - word_of_int CLOCK_FREQ)"
      by (auto simp: stale_def)
    from True have 3: "\<not> (\<exists>i. 1 \<le> i \<and> i < 4 \<and> d_of_f fp (fabsf fp (diff fp time i)) > X fp + Y fp)"
      by (simp add: check_diffs_from)
    from assms 1 2 3
    have "\<not> d_of_f fp (fabsf fp (fst (snd (snd (solver fp (diff fp time) (x st) (y st) 0)))))
                < MAX_ERROR fp"
      by blast
    with True show ?thesis
      by (cases "solver fp (diff fp time) (x st) (y st) 0")
         (simp add: positioningHandler_def publish_def)
  qed
  then show ?thesis by simp
qed

text \<open>One run for each of the four reasons.\<close>

theorem rejected_cycle_leaves_state_witness:
  "(\<lambda>i :: int. 0 :: uint32) 2 = 0
   \<and> positioningHandler exact_arith (\<lambda>i. 0) \<lparr>x = 1, y = 2, fxy = 1 / 4, new_data = 1\<rparr>
       = \<lparr>x = 1, y = 2, fxy = 1 / 4, new_data = 1\<rparr>
   \<and> (\<lambda>i :: int. 2147483648 :: uint32) 0 < ULONG_MAX - word_of_int CLOCK_FREQ
   \<and> positioningHandler exact_arith (\<lambda>i. 2147483648) \<lparr>x = 1, y = 2, fxy = 1 / 4, new_data = 1\<rparr>
       = \<lparr>x = 1, y = 2, fxy = 1 / 4, new_data = 1\<rparr>
   \<and> d_of_f exact_arith (fabsf exact_arith (diff exact_arith far_off 1))
       > X exact_arith + Y exact_arith
   \<and> positioningHandler exact_arith far_off \<lparr>x = 1, y = 2, fxy = 1 / 4, new_data = 1\<rparr>
       = \<lparr>x = 1, y = 2, fxy = 1 / 4, new_data = 1\<rparr>
   \<and> \<not> d_of_f exact_arith (fabsf exact_arith (fst (snd (snd
           (solver exact_arith (diff exact_arith inconsistent) (x at_origin) (y at_origin) 0)))))
         < MAX_ERROR exact_arith
   \<and> positioningHandler exact_arith inconsistent at_origin = at_origin"
proof -
  have a: "\<exists>i. 0 \<le> i \<and> i < 4 \<and> (\<lambda>i :: int. 0 :: uint32) i = 0"
    by (intro exI [of _ 2]) simp
  have b: "\<exists>i. 0 \<le> i \<and> i < 4 \<and> (\<lambda>i :: int. 2147483648 :: uint32) i < ULONG_MAX - word_of_int CLOCK_FREQ"
    by (intro exI [of _ 0]) (simp add: ULONG_MAX_def CLOCK_FREQ_def)
  have c': "d_of_f exact_arith (fabsf exact_arith (diff exact_arith far_off 1))
       > X exact_arith + Y exact_arith"
    by (simp add: diff_far_off fabsf_def X_def Y_def of_rat_divide)
  then have c: "\<exists>i. 1 \<le> i \<and> i < 4 \<and> d_of_f exact_arith (fabsf exact_arith (diff exact_arith far_off i))
       > X exact_arith + Y exact_arith"
    by (intro exI [of _ 1]) simp
  have d: "\<not> d_of_f exact_arith (fabsf exact_arith (fst (snd (snd
           (solver exact_arith (diff exact_arith inconsistent) (x at_origin) (y at_origin) 0)))))
         < MAX_ERROR exact_arith"
    by (simp add: at_origin_def solver_examples fabsf_def MAX_ERROR_def of_rat_divide)
  show ?thesis
    using rejected_cycle_leaves_state [where time = "\<lambda>i. 0" and fp = exact_arith, OF disjI1, OF a]
      rejected_cycle_leaves_state [where time = "\<lambda>i. 2147483648" and fp = exact_arith,
        OF disjI2, OF disjI1, OF b]
      rejected_cycle_leaves_state [where time = far_off and fp = exact_arith,
        OF disjI2, OF disjI2, OF disjI1, OF c]
      rejected_cycle_leaves_state [where time = inconsistent and fp = exact_arith and st = at_origin,
        OF disjI2, OF disjI2, OF disjI2, OF d]
      c' d
    by (simp add: ULONG_MAX_def CLOCK_FREQ_def)
qed

subsection \<open>The staleness comparison\<close>

text \<open>
  Claim C3, as stated: for a nonzero timestamp the comparison with
  \<^verbatim>\<open>ULONG_MAX - CLOCK_FREQ\<close> fails only near the wrap-around of the counter, so that the
  cycle is aborted only there. It is the other way round: the timestamp \<open>2^31\<close>, in the
  middle of the counter's range, is nonzero, is not near the wrap-around, and aborts the
  cycle.
\<close>

theorem staleness_counterexample:
  "(2147483648 :: uint32) \<noteq> 0 \<and> stale 2147483648 \<and> \<not> near_wraparound 2147483648
   \<and> \<not> read_times (\<lambda>i. 2147483648) 0"
  by (simp add: stale_def near_wraparound_def ULONG_MAX_def CLOCK_FREQ_def read_times.simps)

text \<open>
  Claim C3, amended: a timestamp aborts the cycle exactly when it is below
  \<^verbatim>\<open>ULONG_MAX - CLOCK_FREQ\<close> = 4293967295 (zero is one such value); it passes exactly when
  it lies at most \<^verbatim>\<open>CLOCK_FREQ\<close> ticks, one second, below the counter's maximum; and the
  first loop runs through exactly when all four timestamps do so.
\<close>

theorem staleness_passes_only_near_maximum:
  "(stale t \<longleftrightarrow> uint t < 4293967295)
   \<and> (\<not> stale t \<longleftrightarrow> 4294967295 - uint t \<le> CLOCK_FREQ)
   \<and> (read_times time 0 \<longleftrightarrow> (\<forall>i. 0 \<le> i \<and> i < 4 \<longrightarrow> 4293967295 \<le> uint (time i)))"
proof -
  have "stale t \<longleftrightarrow> uint t < 4293967295"
    by (simp add: stale_iff fresh_uint not_le)
  moreover have "\<not> stale t \<longleftrightarrow> 4294967295 - uint t \<le> CLOCK_FREQ"
    by (simp add: stale_iff fresh_uint) (simp add: CLOCK_FREQ_def)
  moreover have "read_times time 0 \<longleftrightarrow> (\<forall>i. 0 \<le> i \<and> i < 4 \<longrightarrow> 4293967295 \<le> uint (time i))"
    by (simp add: read_times_from stale_iff fresh_uint)
  ultimately show ?thesis by blast
qed

theorem staleness_passes_only_near_maximum_witness:
  "\<not> stale (4294867294 :: uint32) \<and> 4294967295 - uint (4294867294 :: uint32) \<le> CLOCK_FREQ
   \<and> stale (1000 :: uint32) \<and> uint (1000 :: uint32) < 4293967295
   \<and> read_times one_tick_late 0
   \<and> 4293967295 \<le> uint (one_tick_late 0) \<and> 4293967295 \<le> uint (one_tick_late 1)
   \<and> 4293967295 \<le> uint (one_tick_late 2) \<and> 4293967295 \<le> uint (one_tick_late 3)"
  using staleness_passes_only_near_maximum [of 4294867294 one_tick_late]
    staleness_passes_only_near_maximum [of 1000 one_tick_late]
    read_times_examples(2)
  by (simp add: CLOCK_FREQ_def)

subsection \<open>The differences in distance\<close>

text \<open>
  Claim C4: for \<open>i = 1, 2, 3\<close> the difference \<^verbatim>\<open>diff[i]\<close> is the signed tick delta
  \<^verbatim>\<open>time[0] - time[i]\<close> minus \<open>i\<close> times the spacing of the pulses in ticks
  (\<^verbatim>\<open>CLOCK_FREQ/1000*TX_SPACING\<close>), scaled by \<^verbatim>\<open>WAVE_SPEED/CLOCK_FREQ\<close>. The differences
  are computed after the first loop has run through, which is the hypothesis. The first
  equation holds for every floating-point arithmetic, with the conversions of the C
  expression written out; the second is the same value in exact arithmetic.
\<close>

theorem tdoa_difference_formula:
  assumes "read_times time 0" and "1 \<le> i" and "i \<le> 3"
  shows "diff fp time i =
           f_of_d fp (d_of_f fp (f_of_int fp
                        (sint (time 0 - time i) - i * (CLOCK_FREQ div 1000 * TX_SPACING)))
                      * (WAVE_SPEED fp / d_of_int fp CLOCK_FREQ))
         \<and> diff exact_arith time i =
             (real_of_int (sint (time 0 - time i)) - real_of_int i * (1000000 / 1000 * 100))
               * (1135 / 1000000)"
proof -
  from assms have f: "\<not> stale (time 0)" "\<not> stale (time i)"
    by (simp_all add: read_times_from)
  from assms have i: "0 \<le> i" "i \<le> 3" by simp_all
  have "sint (tick_delta (time 0) (time i) i)
          = sint (time 0 - time i) - i * (CLOCK_FREQ div 1000 * TX_SPACING)"
    by (simp add: tick_delta_exact [OF f i] CLOCK_FREQ_def TX_SPACING_def)
  then show ?thesis
    by (simp add: diff_def WAVE_SPEED_def CLOCK_FREQ_def TX_SPACING_def)
qed

text \<open>The third pulse of the inconsistent captures: 199600 ticks after the first.\<close>

theorem tdoa_difference_formula_witness:
  "read_times inconsistent 0
   \<and> diff exact_arith inconsistent 2 = (real_of_int 199600 - 200000) * (1135 / 1000000)
   \<and> diff exact_arith inconsistent 2 = - (454 / 1000)"
proof -
  have "sint (inconsistent 0 - inconsistent 2) = 199600"
    by (simp add: inconsistent_def)
  with tdoa_difference_formula [OF read_times_examples(3), of 2 exact_arith]
  show ?thesis
    by (simp add: read_times_examples)
qed

text \<open>
  Claim C5: for timestamps that passed the first loop, the integer that is converted to
  \<^verbatim>\<open>float\<close> is the mathematical value of (\<^verbatim>\<open>time[0]\<close> minus \<^verbatim>\<open>time[i]\<close>) minus \<open>i\<close>
  times the spacing: the cast to \<^verbatim>\<open>int32\<close> undoes the wrap-around of the unsigned
  subtraction, and the signed subtraction stays between -1300000 and 900000, far inside
  the range of \<^verbatim>\<open>int32\<close>.
\<close>

theorem tick_delta_without_overflow:
  assumes "read_times time 0" and "1 \<le> i" and "i \<le> 3"
  shows "sint (time 0 - time i) = uint (time 0) - uint (time i)
         \<and> sint (tick_delta (time 0) (time i) i)
             = uint (time 0) - uint (time i) - i * (CLOCK_FREQ div 1000 * TX_SPACING)
         \<and> - 1300000 \<le> uint (time 0) - uint (time i) - i * (CLOCK_FREQ div 1000 * TX_SPACING)
         \<and> uint (time 0) - uint (time i) - i * (CLOCK_FREQ div 1000 * TX_SPACING) \<le> 900000
         \<and> diff fp time i =
             f_of_d fp (d_of_f fp (f_of_int fp
                          (uint (time 0) - uint (time i) - i * (CLOCK_FREQ div 1000 * TX_SPACING)))
                        * (WAVE_SPEED fp / d_of_int fp CLOCK_FREQ))"
proof -
  from assms have f: "\<not> stale (time 0)" "\<not> stale (time i)"
    by (simp_all add: read_times_from)
  from assms have i: "0 \<le> i" "i \<le> 3" by simp_all
  have b0: "4293967295 \<le> uint (time 0)" "uint (time 0) < 4294967296"
    using f(1) uint_bounded [of "time 0"] by (simp_all add: stale_iff fresh_uint)
  have bi: "4293967295 \<le> uint (time i)" "uint (time i) < 4294967296"
    using f(2) uint_bounded [of "time i"] by (simp_all add: stale_iff fresh_uint)
  have s: "CLOCK_FREQ div 1000 * TX_SPACING = 100000"
    by (simp add: CLOCK_FREQ_def TX_SPACING_def)
  have 1: "sint (time 0 - time i) = uint (time 0) - uint (time i)"
    by (rule tick_delta_exact(1) [OF f i])
  have 2: "sint (tick_delta (time 0) (time i) i)
             = uint (time 0) - uint (time i) - i * (CLOCK_FREQ div 1000 * TX_SPACING)"
    by (simp add: tick_delta_exact(2) [OF f i] s)
  have 3: "- 1300000 \<le> uint (time 0) - uint (time i) - i * (CLOCK_FREQ div 1000 * TX_SPACING)"
    using b0 bi assms(2,3) by (simp add: s)
  have 4: "uint (time 0) - uint (time i) - i * (CLOCK_FREQ div 1000 * TX_SPACING) \<le> 900000"
    using b0 bi assms(2,3) by (simp add: s)
  have 5: "diff fp time i =
             f_of_d fp (d_of_f fp (f_of_int fp
                          (uint (time 0) - uint (time i) - i * (CLOCK_FREQ div 1000 * TX_SPACING)))
                        * (WAVE_SPEED fp / d_of_int fp CLOCK_FREQ))"
    by (simp only: diff_def 2)
  from 1 2 3 4 5 show ?thesis by blast
qed

text \<open>
  A first timestamp below the fourth: the unsigned difference wraps to 4294467296, the
  cast reads it as -500000, and the tick delta is -800000.
\<close>

theorem tick_delta_without_overflow_witness:
  "read_times (\<lambda>i. if i = 0 then 4294467295 else 4294967295) 0
   \<and> (4294467295 :: uint32) - 4294967295 = 4294467296
   \<and> sint ((4294467295 :: uint32) - 4294967295) = - 500000
   \<and> sint (tick_delta 4294467295 4294967295 3) = - 800000"
proof -
  have v: "read_times (\<lambda>i. if i = 0 then 4294467295 else 4294967295) 0"
    by (simp add: read_times.simps stale_def ULONG_MAX_def CLOCK_FREQ_def)
  show ?thesis
    using v tick_delta_without_overflow [OF v, of 3 exact_arith]
    by (simp add: CLOCK_FREQ_def TX_SPACING_def)
qed

subsection \<open>The loop\<close>



text \<open>
  Claim C7: the division by the squared gradient magnitude is guarded. A pass that finds
  it equal to zero returns the point and \<^verbatim>\<open>iters\<close> as they are, before any update; and
  in a whole run with \<open>n\<close> updates, the final point is the \<open>n\<close>-th iterate and the divisor
  of each of the \<open>n\<close> updates, the squared gradient magnitude at the iterates
  \<open>0, ..., n - 1\<close>, does not compare equal to zero.
\<close>

theorem update_division_is_guarded:
  "(stationary fp dif (a, b) \<longrightarrow> solver fp dif a b i = (a, b, cost fp dif a b, i))
   \<and> (\<exists>n\<le>100. snd (snd (snd (solver fp dif a b 0))) = int n
         \<and> (fst (solver fp dif a b 0), fst (snd (solver fp dif a b 0))) = iterate fp dif (a, b) n
         \<and> (\<forall>j<n. \<not> d_eq fp (d_of_f fp (gradient_magnitude_squared fp dif
                        (fst (iterate fp dif (a, b) j)) (snd (iterate fp dif (a, b) j))))
                      (d_lit fp 0.0)))"
proof -
  have "stationary fp dif (a, b) \<longrightarrow> solver fp dif a b i = (a, b, cost fp dif a b, i)"
    by (subst solver_unfold) simp
  moreover from solver_updates [of fp dif a b]
  have "\<exists>n\<le>100. snd (snd (snd (solver fp dif a b 0))) = int n
         \<and> (fst (solver fp dif a b 0), fst (snd (solver fp dif a b 0))) = iterate fp dif (a, b) n
         \<and> (\<forall>j<n. \<not> d_eq fp (d_of_f fp (gradient_magnitude_squared fp dif
                        (fst (iterate fp dif (a, b) j)) (snd (iterate fp dif (a, b) j))))
                      (d_lit fp 0.0))"
    unfolding stationary_def by blast
  ultimately show ?thesis by blast
qed

text \<open>
  The inconsistent captures make the origin stationary: no update. One tick late: one
  update, whose divisor is not zero.
\<close>

theorem update_division_is_guarded_witness:
  "stationary exact_arith (diff exact_arith inconsistent) (0, 0)
   \<and> solver exact_arith (diff exact_arith inconsistent) 0 0 0 = (0, 0, 154587 / 250000, 0)
   \<and> snd (snd (snd (solver exact_arith (diff exact_arith one_tick_late) 0 0 0))) = int 1
   \<and> (fst (solver exact_arith (diff exact_arith one_tick_late) 0 0 0),
       fst (snd (solver exact_arith (diff exact_arith one_tick_late) 0 0 0)))
       = iterate exact_arith (diff exact_arith one_tick_late) (0, 0) 1
   \<and> \<not> d_eq exact_arith (d_of_f exact_arith (gradient_magnitude_squared exact_arith
            (diff exact_arith one_tick_late)
            (fst (iterate exact_arith (diff exact_arith one_tick_late) (0, 0) 0))
            (snd (iterate exact_arith (diff exact_arith one_tick_late) (0, 0) 0))))
          (d_lit exact_arith 0.0)"
proof -
  from update_division_is_guarded [of exact_arith "diff exact_arith inconsistent" 0 0 0]
  have 1: "solver exact_arith (diff exact_arith inconsistent) 0 0 0
             = (0, 0, cost exact_arith (diff exact_arith inconsistent) 0 0, 0)"
    using run_inconsistent(1) by blast
  from update_division_is_guarded [of exact_arith "diff exact_arith one_tick_late" 0 0 0]
  obtain n where n: "snd (snd (snd (solver exact_arith (diff exact_arith one_tick_late) 0 0 0))) = int n"
    and g: "\<forall>j<n. \<not> d_eq exact_arith (d_of_f exact_arith (gradient_magnitude_squared exact_arith
            (diff exact_arith one_tick_late)
            (fst (iterate exact_arith (diff exact_arith one_tick_late) (0, 0) j))
            (snd (iterate exact_arith (diff exact_arith one_tick_late) (0, 0) j))))
          (d_lit exact_arith 0.0)"
    by blast
  from n have "n = 1" by (simp add: solver_examples)
  with g have 2: "\<not> d_eq exact_arith (d_of_f exact_arith (gradient_magnitude_squared exact_arith
            (diff exact_arith one_tick_late)
            (fst (iterate exact_arith (diff exact_arith one_tick_late) (0, 0) 0))
            (snd (iterate exact_arith (diff exact_arith one_tick_late) (0, 0) 0))))
          (d_lit exact_arith 0.0)"
    by blast
  from 1 2 run_inconsistent show ?thesis
    by (simp add: solver_examples step_one_tick_late)
qed

text \<open>
  Claim C8: on a cycle that passes both validity loops the handler publishes what the
  loop returns when started at the published estimate \<open>(x, y)\<close> with \<^verbatim>\<open>iters = 0\<close>, so the
  point it returns is an iterate of \<open>(x, y)\<close>; and a pass that finds a nonzero squared
  gradient magnitude replaces each coordinate by itself minus \<^verbatim>\<open>DEL_FACTOR\<close> times the
  cost times the partial derivative, divided by the squared gradient magnitude.
\<close>

theorem seeding_and_newton_update:
  "(read_times time 0 \<and> check_diffs fp time 1 \<longrightarrow>
      positioningHandler fp time st
        = publish fp st (solver fp (diff fp time) (x st) (y st) 0)
      \<and> (\<exists>n\<le>100. snd (snd (snd (solver fp (diff fp time) (x st) (y st) 0))) = int n
            \<and> (fst (solver fp (diff fp time) (x st) (y st) 0),
                fst (snd (solver fp (diff fp time) (x st) (y st) 0)))
                = iterate fp (diff fp time) (x st, y st) n)
      \<and> iterate fp (diff fp time) (x st, y st) 0 = (x st, y st))
   \<and> (\<not> d_eq fp (d_of_f fp (gradient_magnitude_squared fp dif a b)) (d_lit fp 0.0) \<longrightarrow>
        solver fp dif a b i =
          (let a' = f_of_d fp (d_of_f fp a
                      - DEL_FACTOR fp * d_of_f fp (cost fp dif a b) * d_of_f fp (dfx fp dif a b)
                          / d_of_f fp (gradient_magnitude_squared fp dif a b));
               b' = f_of_d fp (d_of_f fp b
                      - DEL_FACTOR fp * d_of_f fp (cost fp dif a b) * d_of_f fp (dfy fp dif a b)
                          / d_of_f fp (gradient_magnitude_squared fp dif a b))
           in if d_of_f fp (fabsf fp (cost fp dif a b)) > ERROR_THRESHOLD fp
                 \<and> i + 1 < MAX_ITERATIONS
              then solver fp dif a' b' (i + 1)
              else (a', b', cost fp dif a b, i + 1)))"
proof -
  have 1: "positioningHandler fp time st
        = publish fp st (solver fp (diff fp time) (x st) (y st) 0)"
    if "read_times time 0 \<and> check_diffs fp time 1"
    using that by (simp add: positioningHandler_def)
  from solver_updates [of fp "diff fp time" "x st" "y st"]
  have 2: "\<exists>n\<le>100. snd (snd (snd (solver fp (diff fp time) (x st) (y st) 0))) = int n
            \<and> (fst (solver fp (diff fp time) (x st) (y st) 0),
                fst (snd (solver fp (diff fp time) (x st) (y st) 0)))
                = iterate fp (diff fp time) (x st, y st) n"
    by blast
  have 3: "solver fp dif a b i =
          (let a' = f_of_d fp (d_of_f fp a
                      - DEL_FACTOR fp * d_of_f fp (cost fp dif a b) * d_of_f fp (dfx fp dif a b)
                          / d_of_f fp (gradient_magnitude_squared fp dif a b));
               b' = f_of_d fp (d_of_f fp b
                      - DEL_FACTOR fp * d_of_f fp (cost fp dif a b) * d_of_f fp (dfy fp dif a b)
                          / d_of_f fp (gradient_magnitude_squared fp dif a b))
           in if d_of_f fp (fabsf fp (cost fp dif a b)) > ERROR_THRESHOLD fp
                 \<and> i + 1 < MAX_ITERATIONS
              then solver fp dif a' b' (i + 1)
              else (a', b', cost fp dif a b, i + 1))"
    if "\<not> d_eq fp (d_of_f fp (gradient_magnitude_squared fp dif a b)) (d_lit fp 0.0)"
    using that by (subst solver.simps) (simp add: Let_def newton_update_def)
  from 1 2 3 show ?thesis
    by simp
qed

text \<open>
  Pulses on time, seen from two published estimates: the origin is stationary, the
  estimate one foot off the centre is not, and the loop is started there. One tick late,
  from the origin: the step that the formula gives.
\<close>

theorem seeding_and_newton_update_witness:
  "read_times on_time 0 \<and> check_diffs exact_arith on_time 1
   \<and> stationary exact_arith (diff exact_arith on_time) (x at_origin, y at_origin)
   \<and> \<not> stationary exact_arith (diff exact_arith on_time) (x off_centre, y off_centre)
   \<and> positioningHandler exact_arith on_time off_centre
       = publish exact_arith off_centre
           (solver exact_arith (diff exact_arith on_time) 1 0 0)
   \<and> read_times one_tick_late 0 \<and> check_diffs exact_arith one_tick_late 1
   \<and> \<not> d_eq exact_arith (d_of_f exact_arith
          (gradient_magnitude_squared exact_arith (diff exact_arith one_tick_late) 0 0))
        (d_lit exact_arith 0.0)
   \<and> positioningHandler exact_arith one_tick_late at_origin
       = publish exact_arith at_origin
           (solver exact_arith (diff exact_arith one_tick_late) (x at_origin) (y at_origin) 0)
   \<and> solver exact_arith (diff exact_arith one_tick_late) 0 0 0
       = (0 - 1 / 10 * (1288225 / 1000000000000) * ((10669 / 200000) / dist exact_arith 0 0 0)
                / (((10669 / 200000) / dist exact_arith 0 0 0)
                    * ((10669 / 200000) / dist exact_arith 0 0 0)),
          0, 1288225 / 1000000000000, 1)"
proof -
  note v = read_times_examples(2) check_diffs_examples(2)
  have g: "\<not> d_eq exact_arith (d_of_f exact_arith
          (gradient_magnitude_squared exact_arith (diff exact_arith one_tick_late) 0 0))
        (d_lit exact_arith 0.0)"
    using step_one_tick_late(1) by (simp add: stationary_def)
  have t: "\<not> d_of_f exact_arith (fabsf exact_arith (cost exact_arith (diff exact_arith one_tick_late) 0 0))
             > ERROR_THRESHOLD exact_arith"
    using step_one_tick_late(2) by (simp add: above_threshold_def)
  from seeding_and_newton_update [of one_tick_late exact_arith at_origin
      "diff exact_arith one_tick_late" 0 0 0] v g
  have 1: "positioningHandler exact_arith one_tick_late at_origin
       = publish exact_arith at_origin
           (solver exact_arith (diff exact_arith one_tick_late) (x at_origin) (y at_origin) 0)"
    and 2: "solver exact_arith (diff exact_arith one_tick_late) 0 0 0 =
          (let a' = f_of_d exact_arith (d_of_f exact_arith 0
                      - DEL_FACTOR exact_arith
                        * d_of_f exact_arith (cost exact_arith (diff exact_arith one_tick_late) 0 0)
                        * d_of_f exact_arith (dfx exact_arith (diff exact_arith one_tick_late) 0 0)
                          / d_of_f exact_arith (gradient_magnitude_squared exact_arith (diff exact_arith one_tick_late) 0 0));
               b' = f_of_d exact_arith (d_of_f exact_arith 0
                      - DEL_FACTOR exact_arith
                        * d_of_f exact_arith (cost exact_arith (diff exact_arith one_tick_late) 0 0)
                        * d_of_f exact_arith (dfy exact_arith (diff exact_arith one_tick_late) 0 0)
                          / d_of_f exact_arith (gradient_magnitude_squared exact_arith (diff exact_arith one_tick_late) 0 0))
           in if d_of_f exact_arith (fabsf exact_arith (cost exact_arith (diff exact_arith one_tick_late) 0 0)) > ERROR_THRESHOLD exact_arith
                 \<and> 0 + 1 < MAX_ITERATIONS
              then solver exact_arith (diff exact_arith one_tick_late) a' b' (0 + 1)
              else (a', b', cost exact_arith (diff exact_arith one_tick_late) 0 0, 0 + 1))"
    by blast+
  from 2 t have "solver exact_arith (diff exact_arith one_tick_late) 0 0 0
       = (0 - 1 / 10 * (1288225 / 1000000000000) * ((10669 / 200000) / dist exact_arith 0 0 0)
                / (((10669 / 200000) / dist exact_arith 0 0 0)
                    * ((10669 / 200000) / dist exact_arith 0 0 0)),
          0, 1288225 / 1000000000000, 1)"
    by (simp add: Let_def run_one_tick_late gms_one_tick_late DEL_FACTOR_def of_rat_divide)
  moreover
  from seeding_and_newton_update [of on_time exact_arith off_centre
      "diff exact_arith on_time" 0 0 0] read_times_examples(1) check_diffs_examples(1)
  have "positioningHandler exact_arith on_time off_centre
       = publish exact_arith off_centre
           (solver exact_arith (diff exact_arith on_time) 1 0 0)"
    by (simp add: off_centre_def)
  moreover
  have "stationary exact_arith (diff exact_arith on_time) (x at_origin, y at_origin)"
    "\<not> stationary exact_arith (diff exact_arith on_time) (x off_centre, y off_centre)"
    by (simp_all add: at_origin_def off_centre_def run_on_time not_stationary_off_centre)
  ultimately show ?thesis
    using 1 v g read_times_examples(1) check_diffs_examples(1) by blast
qed

subsection \<open>The flag\<close>

text \<open>
  Claim C9: \<^verbatim>\<open>position_data_available\<close> returns the flag, which is nonzero exactly when
  there is unseen data, and clears it; called on a set flag it returns 1; and the second
  of two calls in a row returns 0.
\<close>

theorem position_data_available_test_and_clear:
  "fst (position_data_available st) = new_data st
   \<and> (fst (position_data_available st) \<noteq> 0 \<longleftrightarrow> new_data st \<noteq> 0)
   \<and> snd (position_data_available st) = st\<lparr>new_data := 0\<rparr>
   \<and> fst (position_data_available (st\<lparr>new_data := 1\<rparr>)) = 1
   \<and> fst (position_data_available (snd (position_data_available st))) = 0"
  by (simp add: position_data_available_def)

subsection \<open>The first pass of the loop\<close>

text \<open>
  Claim C10: on a cycle that passes both validity loops the body of the loop runs at
  least once. If the published estimate is stationary for the new measurements, it is
  published again with its newly computed cost. If it is not, at least one update is made;
  and if its cost is already at or below the threshold, exactly one update is made before
  the acceptance test, which is applied to the cost of the point before the update. In
  all cases the cost that is tested is computed from the new differences at some iterate.
\<close>

theorem loop_body_runs_at_least_once:
  assumes "read_times time 0" and "check_diffs fp time 1"
  shows "(stationary fp (diff fp time) (x st, y st) \<longrightarrow>
            positioningHandler fp time st
              = publish fp st (x st, y st, cost fp (diff fp time) (x st) (y st), 0))
       \<and> (\<not> stationary fp (diff fp time) (x st, y st) \<longrightarrow>
            1 \<le> snd (snd (snd (solver fp (diff fp time) (x st) (y st) 0))))
       \<and> (\<not> stationary fp (diff fp time) (x st, y st)
            \<and> \<not> above_threshold fp (diff fp time) (x st, y st) \<longrightarrow>
            positioningHandler fp time st
              = publish fp st (fst (step fp (diff fp time) (x st, y st)),
                               snd (step fp (diff fp time) (x st, y st)),
                               cost fp (diff fp time) (x st) (y st), 1))
       \<and> (\<exists>K<100. fst (snd (snd (solver fp (diff fp time) (x st) (y st) 0)))
             = cost fp (diff fp time) (fst (iterate fp (diff fp time) (x st, y st) K))
                 (snd (iterate fp (diff fp time) (x st, y st) K)))"
proof -
  have H: "positioningHandler fp time st
        = publish fp st (solver fp (diff fp time) (x st) (y st) 0)"
    using assms by (simp add: positioningHandler_def)
  have 1: "solver fp (diff fp time) (x st) (y st) 0
             = (x st, y st, cost fp (diff fp time) (x st) (y st), 0)"
    if "stationary fp (diff fp time) (x st, y st)"
    using that by (subst solver_unfold) simp
  have 2: "1 \<le> snd (snd (snd (solver fp (diff fp time) (x st) (y st) 0)))"
    if ns: "\<not> stationary fp (diff fp time) (x st, y st)"
  proof -
    from solver_exit [of fp "diff fp time" "x st" "y st"] obtain K
      where "solver fp (diff fp time) (x st) (y st) 0
               = outcome fp (diff fp time) (x st, y st) 0 K"
      by blast
    with ns show ?thesis
      by (cases K) (simp_all add: outcome_def Let_def)
  qed
  have 3: "solver fp (diff fp time) (x st) (y st) 0
             = (fst (step fp (diff fp time) (x st, y st)),
                snd (step fp (diff fp time) (x st, y st)),
                cost fp (diff fp time) (x st) (y st), 1)"
    if "\<not> stationary fp (diff fp time) (x st, y st)
            \<and> \<not> above_threshold fp (diff fp time) (x st, y st)"
    using that by (subst solver_unfold) simp
  from solver_updates [of fp "diff fp time" "x st" "y st"]
  have 4: "\<exists>K<100. fst (snd (snd (solver fp (diff fp time) (x st) (y st) 0)))
             = cost fp (diff fp time) (fst (iterate fp (diff fp time) (x st, y st) K))
                 (snd (iterate fp (diff fp time) (x st, y st) K))"
    by blast
  from 1 2 3 4 show ?thesis
    unfolding H by simp
qed

text \<open>
  From the origin, one tick late: the cost is below the threshold from the start, and
  still one step is made before the result is published. Pulses on time: the origin is
  stationary and is published with its new cost; the estimate off the centre is not, and
  at least one update is made.
\<close>

theorem loop_body_runs_at_least_once_witness:
  "read_times one_tick_late 0 \<and> check_diffs exact_arith one_tick_late 1
   \<and> \<not> stationary exact_arith (diff exact_arith one_tick_late) (x at_origin, y at_origin)
   \<and> \<not> above_threshold exact_arith (diff exact_arith one_tick_late) (x at_origin, y at_origin)
   \<and> positioningHandler exact_arith one_tick_late at_origin
       = \<lparr>x = - (227 / 94000000) * dist exact_arith 0 0 0, y = 0,
          fxy = 1288225 / 1000000000000, new_data = 1\<rparr>
   \<and> read_times on_time 0 \<and> check_diffs exact_arith on_time 1
   \<and> stationary exact_arith (diff exact_arith on_time) (x at_origin, y at_origin)
   \<and> positioningHandler exact_arith on_time at_origin = at_origin\<lparr>new_data := 1\<rparr>
   \<and> \<not> stationary exact_arith (diff exact_arith on_time) (x off_centre, y off_centre)
   \<and> 1 \<le> snd (snd (snd (solver exact_arith (diff exact_arith on_time)
                               (x off_centre) (y off_centre) 0)))"
proof -
  have b: "\<not> stationary exact_arith (diff exact_arith on_time) (x off_centre, y off_centre)"
    by (simp add: off_centre_def not_stationary_off_centre)
  from loop_body_runs_at_least_once [OF read_times_examples(1) check_diffs_examples(1), of off_centre] b
  have 3: "1 \<le> snd (snd (snd (solver exact_arith (diff exact_arith on_time)
                               (x off_centre) (y off_centre) 0)))"
    by blast
  have a: "\<not> stationary exact_arith (diff exact_arith one_tick_late) (x at_origin, y at_origin)"
    "\<not> above_threshold exact_arith (diff exact_arith one_tick_late) (x at_origin, y at_origin)"
    "stationary exact_arith (diff exact_arith on_time) (x at_origin, y at_origin)"
    by (simp_all add: at_origin_def step_one_tick_late run_on_time)
  from loop_body_runs_at_least_once [OF read_times_examples(2) check_diffs_examples(2), of at_origin] a
  have "positioningHandler exact_arith one_tick_late at_origin
          = publish exact_arith at_origin
              (fst (step exact_arith (diff exact_arith one_tick_late) (x at_origin, y at_origin)),
               snd (step exact_arith (diff exact_arith one_tick_late) (x at_origin, y at_origin)),
               cost exact_arith (diff exact_arith one_tick_late) (x at_origin) (y at_origin), 1)"
    by blast
  then have 1: "positioningHandler exact_arith one_tick_late at_origin
       = \<lparr>x = - (227 / 94000000) * dist exact_arith 0 0 0, y = 0,
          fxy = 1288225 / 1000000000000, new_data = 1\<rparr>"
    by (simp add: at_origin_def step_one_tick_late run_one_tick_late publish_def fabsf_def
        MAX_ERROR_def of_rat_divide)
  from loop_body_runs_at_least_once [OF read_times_examples(1) check_diffs_examples(1), of at_origin] a
  have "positioningHandler exact_arith on_time at_origin
          = publish exact_arith at_origin
              (x at_origin, y at_origin,
               cost exact_arith (diff exact_arith on_time) (x at_origin) (y at_origin), 0)"
    by blast
  then have 2: "positioningHandler exact_arith on_time at_origin = at_origin\<lparr>new_data := 1\<rparr>"
    by (simp add: at_origin_def run_on_time publish_def fabsf_def MAX_ERROR_def of_rat_divide)
  from 1 2 3 a b read_times_examples(1,2) check_diffs_examples(1,2) show ?thesis
    by blast
qed

end
